theory Spec2Isabelle
  imports Complex_Main
begin

section \<open>The vehicle adapter \<open>selfdrive/car/other\<close>\<close>

text \<open>
  A shallow embedding of \<^verbatim>\<open>selfdrive/car/other/values.py\<close> and of the class
  \<^verbatim>\<open>CarInterface\<close> of \<^verbatim>\<open>selfdrive/car/other/interface.py\<close>: the one-time
  parameter derivation \<^verbatim>\<open>get_params\<close> and the per-cycle \<^verbatim>\<open>update\<close>.

  Python floats are modelled as \<^typ>\<open>real\<close>: a decimal literal stands for the float
  it denotes, a message field holds the number assigned to it, and comparisons are the
  order of the reals (no NaN, no rounding). The theorems use of these numbers only their
  order. Python strings are \<^typ>\<open>string\<close>, dictionaries are maps, and every exception
  the code can raise is a value of the type \<open>exception\<close>, returned as \<open>Inl\<close>.
\<close>

subsection \<open>\<^verbatim>\<open>values.py\<close>\<close>

text \<open>\<^verbatim>\<open>class CAR\<close>: the registry of vehicle identities has one member.\<close>

definition OLD_CAR :: string where
  "OLD_CAR = ''OLD_CARS''"

text \<open>\<^verbatim>\<open>class ECU\<close>: the ECUs are numbered.\<close>

definition CAM :: nat where
  "CAM = 0"

definition DSU :: nat where
  "DSU = 1"

definition APGS :: nat where
  "APGS = 2"

text \<open>
  \<^verbatim>\<open>ECU_FINGERPRINT\<close>: the message ids that reveal each ECU
  (\<^verbatim>\<open>0x2e4\<close>, \<^verbatim>\<open>0x343\<close>, \<^verbatim>\<open>0x835\<close>).
\<close>

definition ECU_FINGERPRINT :: "nat \<rightharpoonup> nat list" where
  "ECU_FINGERPRINT = [CAM \<mapsto> [740], DSU \<mapsto> [835], APGS \<mapsto> [2101]]"

text \<open>
  \<^verbatim>\<open>FINGERPRINTS\<close>: for each identity the message-id to length dictionaries
  recorded for it. The three rows of \<^verbatim>\<open>CAR.OLD_CAR\<close> are written as association
  lists, in the order of the source.
\<close>

type_synonym row = "nat \<rightharpoonup> nat"

definition OLD_CAR_row1 :: "(nat \<times> nat) list" where
  "OLD_CAR_row1 = [
    (36,8), (37,8), (170,8), (180,8), (186,4), (253,8), (254,8), (255,8), (426,6), (452,8),
    (464,8), (466,8), (467,8), (512,6), (513,6), (547,8), (548,8), (552,4), (608,8), (610,5),
    (643,7), (705,8), (740,5), (800,8), (835,8), (836,8), (849,4), (869,7), (870,7), (871,2),
    (896,8), (897,8), (900,6), (902,6), (905,8), (911,8), (916,2), (921,8), (933,8), (944,8),
    (945,8), (951,8), (955,4), (956,8), (979,2), (998,5), (999,7), (1000,8), (1001,8),
    (1017,8), (1041,8), (1042,8), (1043,8), (1044,8), (1056,8), (1059,1), (1114,8), (1161,8),
    (1162,8), (1163,8), (1196,8), (1222,8), (1224,8), (1227,8), (1235,8), (1279,8), (1552,8),
    (1553,8), (1556,8), (1557,8), (1561,8), (1562,8), (1568,8), (1569,8), (1570,8), (1571,8),
    (1572,8), (1592,8), (1596,8), (1597,8), (1600,8), (1664,8), (1779,8), (1904,8), (1912,8),
    (1990,8), (1998,8), (2016,8), (2017,8), (2018,8), (2019,8), (2020,8), (2021,8), (2022,8),
    (2023,8), (2024,8)]"

definition OLD_CAR_row2 :: "(nat \<times> nat) list" where
  "OLD_CAR_row2 = [
    (36,8), (37,8), (170,8), (180,1), (186,4), (253,8), (254,8), (255,8), (426,6), (452,8),
    (464,8), (466,8), (467,8), (512,6), (513,6), (547,8), (548,8), (552,4), (608,8), (610,5),
    (643,7), (705,8), (740,5), (800,8), (835,8), (836,8), (849,4), (869,7), (870,7), (871,2),
    (896,8), (897,8), (900,6), (902,6), (905,8), (911,8), (916,2), (921,8), (933,8), (944,8),
    (945,8), (951,8), (955,4), (956,8), (979,2), (998,5), (999,7), (1000,8), (1001,8),
    (1017,8), (1041,8), (1042,8), (1043,8), (1044,8), (1056,8), (1059,1), (1114,8), (1161,8),
    (1162,8), (1163,8), (1196,8), (1222,8), (1224,8), (1227,8), (1235,8), (1279,8), (1552,8),
    (1553,8), (1556,8), (1557,8), (1561,8), (1562,8), (1568,8), (1569,8), (1570,8), (1571,8),
    (1572,8), (1592,8), (1596,8), (1597,8), (1600,8), (1664,8), (1779,8), (1904,8), (1912,8),
    (1990,8), (1998,8), (2016,8), (2017,8), (2018,8), (2019,8), (2020,8), (2021,8), (2022,8),
    (2023,8), (2024,8)]"

definition OLD_CAR_row3 :: "(nat \<times> nat) list" where
  "OLD_CAR_row3 = [
    (36,8), (37,8), (170,8), (180,4), (186,4), (253,8), (254,8), (255,8), (426,6), (452,8),
    (464,8), (466,8), (467,8), (512,6), (513,6), (547,8), (548,8), (552,4), (608,8), (610,5),
    (643,7), (705,8), (740,5), (800,8), (835,8), (836,8), (849,4), (869,7), (870,7), (871,2),
    (896,8), (897,8), (900,6), (902,6), (905,8), (911,8), (916,2), (921,8), (933,8), (944,8),
    (945,8), (951,8), (955,4), (956,8), (979,2), (998,5), (999,7), (1000,8), (1001,8),
    (1017,8), (1041,8), (1042,8), (1043,8), (1044,8), (1056,8), (1059,1), (1114,8), (1161,8),
    (1162,8), (1163,8), (1196,8), (1222,8), (1224,8), (1227,8), (1235,8), (1279,8), (1552,8),
    (1553,8), (1556,8), (1557,8), (1561,8), (1562,8), (1568,8), (1569,8), (1570,8), (1571,8),
    (1572,8), (1592,8), (1596,8), (1597,8), (1600,8), (1664,8), (1779,8), (1904,8), (1912,8),
    (1990,8), (1998,8), (2016,8), (2017,8), (2018,8), (2019,8), (2020,8), (2021,8), (2022,8),
    (2023,8), (2024,8)]"

definition FINGERPRINTS :: "string \<rightharpoonup> row list" where
  "FINGERPRINTS = [OLD_CAR \<mapsto> [map_of OLD_CAR_row1, map_of OLD_CAR_row2, map_of OLD_CAR_row3]]"

definition NO_DSU_CAR :: "string list" where
  "NO_DSU_CAR = []"

definition TSS2_CAR :: "string list" where
  "TSS2_CAR = []"

definition NO_STOP_TIMER_CAR :: "string list" where
  "NO_STOP_TIMER_CAR = []"

subsection \<open>Exceptions\<close>

text \<open>
  The exceptions the modelled code can raise: reading a local variable that no branch has
  assigned (\<^verbatim>\<open>UnboundLocalError\<close>, with the variable's name), and subscripting a
  dictionary at a key it does not have (\<^verbatim>\<open>KeyError\<close>, with the key).
\<close>

datatype exception = UnboundLocalError string | KeyError nat

subsection \<open>\<^verbatim>\<open>car.CarParams\<close>\<close>

text \<open>
  The message \<^verbatim>\<open>car.CarParams\<close> with the fields \<^verbatim>\<open>get_params\<close> writes. Its
  schema belongs to the package \<^verbatim>\<open>cereal\<close>; a new message holds the schema's
  defaults: zero, false, the empty text, the empty list, the first member of an
  enumeration and the first member of a union (\<^verbatim>\<open>pid\<close> for \<^verbatim>\<open>lateralTuning\<close>).
  The fields of \<^verbatim>\<open>lateralTuning.pid\<close> and \<^verbatim>\<open>lateralTuning.lqr\<close> carry the
  member's name as a prefix.
\<close>

datatype SafetyModel = noOutput | toyota

datatype SteerControlType = torque | angle

record LateralPIDTuning =
  pid_kpBP :: "real list"
  pid_kpV :: "real list"
  pid_kiBP :: "real list"
  pid_kiV :: "real list"
  pid_kf :: real

record LateralLQRTuning =
  lqr_scale :: real
  lqr_ki :: real
  lqr_dcGain :: real
  lqr_a :: "real list"
  lqr_b :: "real list"
  lqr_c :: "real list"
  lqr_k :: "real list"
  lqr_l :: "real list"

datatype LateralTuning = pid LateralPIDTuning | indi | lqr LateralLQRTuning

record LongitudinalPIDTuning =
  kpBP :: "real list"
  kpV :: "real list"
  kiBP :: "real list"
  kiV :: "real list"
  deadzoneBP :: "real list"
  deadzoneV :: "real list"

record CarParams =
  carName :: string
  carFingerprint :: string
  carVin :: string
  isPandaBlack :: bool
  safetyModel :: SafetyModel
  safetyParam :: int
  enableCruise :: bool
  enableGasInterceptor :: bool
  enableCamera :: bool
  enableDsu :: bool
  enableApgs :: bool
  openpilotLongitudinalControl :: bool
  minEnableSpeed :: real
  steerActuatorDelay :: real
  lateralTuning :: LateralTuning
  longitudinalTuning :: LongitudinalPIDTuning
  wheelbase :: real
  steerRatio :: real
  steerRatioRear :: real
  mass :: real
  steerRateCost :: real
  centerToFront :: real
  rotationalInertia :: real
  tireStiffnessFront :: real
  tireStiffnessRear :: real
  steerControlType :: SteerControlType
  steerMaxBP :: "real list"
  steerMaxV :: "real list"
  gasMaxBP :: "real list"
  gasMaxV :: "real list"
  brakeMaxBP :: "real list"
  brakeMaxV :: "real list"
  steerLimitAlert :: bool
  stoppingControl :: bool
  startAccel :: real

definition new_LateralPIDTuning :: LateralPIDTuning where
  "new_LateralPIDTuning =
     \<lparr>pid_kpBP = [], pid_kpV = [], pid_kiBP = [], pid_kiV = [], pid_kf = 0\<rparr>"

definition new_LateralLQRTuning :: LateralLQRTuning where
  "new_LateralLQRTuning =
     \<lparr>lqr_scale = 0, lqr_ki = 0, lqr_dcGain = 0,
      lqr_a = [], lqr_b = [], lqr_c = [], lqr_k = [], lqr_l = []\<rparr>"

definition new_LongitudinalPIDTuning :: LongitudinalPIDTuning where
  "new_LongitudinalPIDTuning =
     \<lparr>kpBP = [], kpV = [], kiBP = [], kiV = [], deadzoneBP = [], deadzoneV = []\<rparr>"

text \<open>\<^verbatim>\<open>car.CarParams.new_message()\<close>.\<close>

definition new_CarParams :: CarParams where
  "new_CarParams =
     \<lparr>carName = [], carFingerprint = [], carVin = [], isPandaBlack = False,
      safetyModel = noOutput, safetyParam = 0, enableCruise = False,
      enableGasInterceptor = False, enableCamera = False, enableDsu = False,
      enableApgs = False, openpilotLongitudinalControl = False, minEnableSpeed = 0,
      steerActuatorDelay = 0, lateralTuning = pid new_LateralPIDTuning,
      longitudinalTuning = new_LongitudinalPIDTuning, wheelbase = 0, steerRatio = 0,
      steerRatioRear = 0, mass = 0, steerRateCost = 0, centerToFront = 0,
      rotationalInertia = 0, tireStiffnessFront = 0, tireStiffnessRear = 0,
      steerControlType = torque, steerMaxBP = [], steerMaxV = [], gasMaxBP = [],
      gasMaxV = [], brakeMaxBP = [], brakeMaxV = [], steerLimitAlert = False,
      stoppingControl = False, startAccel = 0\<rparr>"

text \<open>
  \<^verbatim>\<open>ret.lateralTuning.init(m)\<close> makes \<open>m\<close> the union's member, with default fields.
  An assignment to \<^verbatim>\<open>ret.lateralTuning.pid.f\<close> or \<^verbatim>\<open>ret.lateralTuning.lqr.f\<close>
  updates the member's record; \<^verbatim>\<open>get_params\<close> only ever writes the member that is
  set at that point.
\<close>

definition init_pid :: LateralTuning where
  "init_pid = pid new_LateralPIDTuning"

definition init_lqr :: LateralTuning where
  "init_lqr = lqr new_LateralLQRTuning"

fun set_pid :: "(LateralPIDTuning \<Rightarrow> LateralPIDTuning) \<Rightarrow> LateralTuning \<Rightarrow> LateralTuning" where
  "set_pid f (pid p) = pid (f p)"
| "set_pid f t = t"

fun set_lqr :: "(LateralLQRTuning \<Rightarrow> LateralLQRTuning) \<Rightarrow> LateralTuning \<Rightarrow> LateralTuning" where
  "set_lqr f (lqr q) = lqr (f q)"
| "set_lqr f t = t"

subsection \<open>What \<^verbatim>\<open>get_params\<close> imports\<close>

text \<open>
  The unit conversions of \<^verbatim>\<open>selfdrive.config.Conversions\<close> and the helpers of the
  package \<^verbatim>\<open>selfdrive.car\<close> are defined outside the two modelled files. They are
  parameters of the model: the conversion factors are any numbers, the two scaling
  functions any functions of their arguments, and \<^verbatim>\<open>is_ecu_disconnected\<close> any
  predicate of the five arguments the code passes.
\<close>

record Conversions =
  LB_TO_KG :: real
  KPH_TO_MS :: real
  MPH_TO_MS :: real
  DEG_TO_RAD :: real

type_synonym fingerprint = "nat \<rightharpoonup> row"

record selfdrive_car =
  STD_CARGO_KG :: real
  scale_rot_inertia :: "real \<Rightarrow> real \<Rightarrow> real"
  scale_tire_stiffness :: "real \<Rightarrow> real \<Rightarrow> real \<Rightarrow> real \<Rightarrow> real \<times> real"
  is_ecu_disconnected ::
    "row \<Rightarrow> (string \<rightharpoonup> row list) \<Rightarrow> (nat \<rightharpoonup> nat list) \<Rightarrow> string \<Rightarrow> nat \<Rightarrow> bool"

subsection \<open>\<^verbatim>\<open>CarInterface.get_params\<close>\<close>

text \<open>
  The body of \<^verbatim>\<open>get_params\<close>, statement by statement. The locals
  \<^verbatim>\<open>stop_and_go\<close> and \<^verbatim>\<open>tire_stiffness_factor\<close> are assigned only in the branch
  of \<^verbatim>\<open>CAR.OLD_CAR\<close>; they are options, \<open>None\<close> while unassigned, and reading an
  unassigned one raises \<^verbatim>\<open>UnboundLocalError\<close>. \<^verbatim>\<open>fingerprint[0]\<close> raises
  \<^verbatim>\<open>KeyError\<close> when the fingerprint has no entry for bus 0. The four calls of
  \<^verbatim>\<open>cloudlog.warning\<close> only log and are left out.
\<close>

definition get_params ::
  "Conversions \<Rightarrow> selfdrive_car \<Rightarrow> string \<Rightarrow> fingerprint \<Rightarrow> string \<Rightarrow> bool
    \<Rightarrow> exception + CarParams" where
  "get_params CV lib candidate fingerprint vin has_relay =
    (let ret = new_CarParams;
         ret = ret\<lparr>carName := ''other''\<rparr>;
         ret = ret\<lparr>carFingerprint := candidate\<rparr>;
         ret = ret\<lparr>carVin := vin\<rparr>;
         ret = ret\<lparr>isPandaBlack := has_relay\<rparr>;
         ret = ret\<lparr>safetyModel := toyota\<rparr>;
         ret = ret\<lparr>enableCruise := \<not> enableGasInterceptor ret\<rparr>;
         ret = ret\<lparr>steerActuatorDelay := 0.12\<rparr>;
         ret =
           (if candidate \<notin> set [OLD_CAR] then
              let ret = ret\<lparr>lateralTuning := init_pid\<rparr>;
                  ret = ret\<lparr>lateralTuning :=
                    set_pid (\<lambda>p. p\<lparr>pid_kiBP := [0], pid_kpBP := [0]\<rparr>) (lateralTuning ret)\<rparr>
              in ret
            else ret);
         (stop_and_go, tire_stiffness_factor, ret) =
           (if candidate = OLD_CAR then
              let ret = ret\<lparr>safetyParam := 100\<rparr>;
                  ret = ret\<lparr>wheelbase := 2.455\<rparr>;
                  ret = ret\<lparr>steerRatio := 17\<rparr>;
                  ret = ret\<lparr>mass := 6200.0 * LB_TO_KG CV + STD_CARGO_KG lib\<rparr>;
                  ret = ret\<lparr>lateralTuning :=
                    set_pid (\<lambda>p. p\<lparr>pid_kpV := [0.1], pid_kiV := [0.04]\<rparr>) (lateralTuning ret)\<rparr>;
                  ret = ret\<lparr>lateralTuning :=
                    set_pid (\<lambda>p. p\<lparr>pid_kf := 0.00004\<rparr>) (lateralTuning ret)\<rparr>;
                  ret = ret\<lparr>lateralTuning := init_lqr\<rparr>;
                  ret = ret\<lparr>lateralTuning :=
                    set_lqr (\<lambda>q. q\<lparr>lqr_scale := 1500.0, lqr_ki := 0.05\<rparr>) (lateralTuning ret)\<rparr>;
                  ret = ret\<lparr>lateralTuning :=
                    set_lqr (\<lambda>q. q\<lparr>lqr_a := [0, 1, - 0.22619643, 1.21822268],
                                    lqr_b := [- 0.000192006585, 0.0000395603032],
                                    lqr_c := [1, 0],
                                    lqr_k := [- 110.73572306, 451.22718255],
                                    lqr_l := [0.3233671, 0.3185757],
                                    lqr_dcGain := 0.002237852961363602\<rparr>) (lateralTuning ret)\<rparr>
              in (Some True, Some (0.444 :: real), ret)
            else (None, None, ret));
         ret = ret\<lparr>steerRateCost := 1\<rparr>;
         ret = ret\<lparr>centerToFront := wheelbase ret * 0.5\<rparr>;
         ret = ret\<lparr>rotationalInertia := scale_rot_inertia lib (mass ret) (wheelbase ret)\<rparr>
     in case tire_stiffness_factor of
          None \<Rightarrow> Inl (UnboundLocalError ''tire_stiffness_factor'')
        | Some factor \<Rightarrow>
         (let (front, rear) =
                scale_tire_stiffness lib (mass ret) (wheelbase ret) (centerToFront ret) factor;
              ret = ret\<lparr>tireStiffnessFront := front, tireStiffnessRear := rear\<rparr>;
              ret = ret\<lparr>steerRatioRear := 0\<rparr>;
              ret = ret\<lparr>steerControlType := torque\<rparr>;
              ret = ret\<lparr>steerMaxBP := [16 * KPH_TO_MS CV, 45 * KPH_TO_MS CV]\<rparr>;
              ret = ret\<lparr>steerMaxV := [1, 1]\<rparr>;
              ret = ret\<lparr>brakeMaxBP := [0]\<rparr>;
              ret = ret\<lparr>brakeMaxV := [1]\<rparr>
          in case fingerprint 0 of
               None \<Rightarrow> Inl (KeyError 0)
             | Some fingerprint0 \<Rightarrow>
              (let ret = ret\<lparr>enableCamera :=
                     is_ecu_disconnected lib fingerprint0 FINGERPRINTS ECU_FINGERPRINT candidate CAM
                     \<or> has_relay\<rparr>;
                   ret = ret\<lparr>enableDsu :=
                     is_ecu_disconnected lib fingerprint0 FINGERPRINTS ECU_FINGERPRINT candidate DSU
                     \<or> (has_relay \<and> candidate \<in> set TSS2_CAR)\<rparr>;
                   ret = ret\<lparr>enableApgs := False\<rparr>;
                   ret = ret\<lparr>enableGasInterceptor := (fingerprint0 513 \<noteq> None)\<rparr>;
                   ret = ret\<lparr>openpilotLongitudinalControl := (enableCamera ret \<and> enableDsu ret)\<rparr>
               in case stop_and_go of
                    None \<Rightarrow> Inl (UnboundLocalError ''stop_and_go'')
                  | Some stop_and_go \<Rightarrow>
                   (let ret = ret\<lparr>minEnableSpeed :=
                          (if stop_and_go \<or> enableGasInterceptor ret then - 1
                           else 19 * MPH_TO_MS CV)\<rparr>;
                        ret = ret\<lparr>steerLimitAlert := False\<rparr>;
                        ret = ret\<lparr>longitudinalTuning :=
                          (longitudinalTuning ret)\<lparr>deadzoneBP := [0, 9]\<rparr>\<rparr>;
                        ret = ret\<lparr>longitudinalTuning :=
                          (longitudinalTuning ret)\<lparr>deadzoneV := [0, 0.15]\<rparr>\<rparr>;
                        ret = ret\<lparr>longitudinalTuning :=
                          (longitudinalTuning ret)\<lparr>kpBP := [0, 5, 35]\<rparr>\<rparr>;
                        ret = ret\<lparr>longitudinalTuning :=
                          (longitudinalTuning ret)\<lparr>kiBP := [0, 35]\<rparr>\<rparr>;
                        ret = ret\<lparr>stoppingControl := False\<rparr>;
                        ret = ret\<lparr>startAccel := 0.0\<rparr>;
                        ret =
                          (if enableGasInterceptor ret then
                             let ret = ret\<lparr>gasMaxBP := [0, 9, 35]\<rparr>;
                                 ret = ret\<lparr>gasMaxV := [0.2, 0.5, 0.7]\<rparr>;
                                 ret = ret\<lparr>longitudinalTuning :=
                                   (longitudinalTuning ret)\<lparr>kpV := [1.2, 0.8, 0.5]\<rparr>\<rparr>;
                                 ret = ret\<lparr>longitudinalTuning :=
                                   (longitudinalTuning ret)\<lparr>kiV := [0.18, 0.12]\<rparr>\<rparr>
                             in ret
                           else
                             let ret = ret\<lparr>gasMaxBP := [0]\<rparr>;
                                 ret = ret\<lparr>gasMaxV := [0.5]\<rparr>;
                                 ret = ret\<lparr>longitudinalTuning :=
                                   (longitudinalTuning ret)\<lparr>kpV := [3.6, 2.4, 1.5]\<rparr>\<rparr>;
                                 ret = ret\<lparr>longitudinalTuning :=
                                   (longitudinalTuning ret)\<lparr>kiV := [0.54, 0.36]\<rparr>\<rparr>
                             in ret)
                    in Inr ret))))"

subsection \<open>What \<^verbatim>\<open>update\<close> reads and writes\<close>

text \<open>
  \<^verbatim>\<open>EventTypes\<close> of \<^verbatim>\<open>selfdrive.controls.lib.drive_helpers\<close>, imported as
  \<^verbatim>\<open>ET\<close>.
\<close>

datatype ET =
  ENABLE | PRE_ENABLE | NO_ENTRY | WARNING | USER_DISABLE | SOFT_DISABLE
  | IMMEDIATE_DISABLE | PERMANENT

text \<open>
  Modelled from the spec: the message \<^verbatim>\<open>car.CarEvent\<close> belongs to \<^verbatim>\<open>cereal\<close>.
  The spec's data model gives an event as a kind with a set of severities.
\<close>

record CarEvent =
  name :: string
  types :: "ET set"

text \<open>
  Modelled from the spec: \<^verbatim>\<open>create_event\<close> is imported from
  \<^verbatim>\<open>selfdrive.controls.lib.drive_helpers\<close> and is not part of the two files. The
  event's kind is the name the code passes, its severities are the members of the list
  the code passes.
\<close>

definition create_event :: "string \<Rightarrow> ET list \<Rightarrow> CarEvent" where
  "create_event n ts = \<lparr>name = n, types = set ts\<rparr>"

text \<open>
  The enumerations \<^verbatim>\<open>car.CarState.GearShifter\<close> and
  \<^verbatim>\<open>car.CarState.ButtonEvent.Type\<close> of \<^verbatim>\<open>cereal\<close>: the default, the members the
  code names, and for the gear every further member by its ordinal.
\<close>

datatype GearShifter =
  GearShifter_unknown | GearShifter_drive | GearShifter_reverse | GearShifter_other nat

datatype ButtonType = ButtonType_unknown | ButtonType_leftBlinker | ButtonType_rightBlinker

record ButtonEvent =
  type :: ButtonType
  pressed :: bool

text \<open>
  Modelled from the spec: the class \<^verbatim>\<open>CarState\<close> of
  \<^verbatim>\<open>selfdrive.car.other.carstate\<close> is not part of the two files. The record holds the
  attributes \<^verbatim>\<open>update\<close> reads from \<^verbatim>\<open>self.CS\<close>, typed after the spec's signal
  snapshot: speeds, angles, torques and pedal values are numbers, the raw
  brake-pressed signal is a number compared with 0, the PCM status is a code, and the
  blinker, door, seatbelt, cruise and fault signals are flags. On a flag
  \<^verbatim>\<open>x != 0\<close> and \<^verbatim>\<open>bool(x)\<close> are \<open>x\<close>.
\<close>

record CarState =
  v_ego :: real
  v_ego_raw :: real
  a_ego :: real
  angle_steers :: real
  angle_steers_rate :: real
  standstill :: bool
  v_wheel_fl :: real
  v_wheel_fr :: real
  v_wheel_rl :: real
  v_wheel_rr :: real
  gear_shifter :: GearShifter
  car_gas :: real
  pedal_gas :: real
  user_brake :: real
  brake_pressed :: real
  brake_lights :: bool
  steer_torque_driver :: real
  steer_torque_motor :: real
  steer_override :: bool
  pcm_acc_active :: bool
  pcm_acc_status :: int
  v_cruise_pcm :: real
  main_on :: bool
  left_blinker_on :: bool
  prev_left_blinker_on :: bool
  right_blinker_on :: bool
  prev_right_blinker_on :: bool
  door_all_closed :: bool
  seatbelt :: bool
  generic_toggle :: bool
  esp_disabled :: bool
  steer_error :: bool
  low_speed_lockout :: bool

text \<open>
  The two CAN parsers \<^verbatim>\<open>self.cp\<close> and \<^verbatim>\<open>self.cp_cam\<close>: the attributes
  \<^verbatim>\<open>update\<close> reads.
\<close>

record CANParser =
  can_valid :: bool
  can_invalid_cnt :: int

text \<open>
  The control message \<^verbatim>\<open>c\<close>: \<^verbatim>\<open>update\<close> reads \<^verbatim>\<open>c.actuators.gas\<close> only.
\<close>

record Actuators =
  actuators_gas :: real

record CarControl =
  actuators :: Actuators

text \<open>
  The message \<^verbatim>\<open>car.CarState\<close> that \<^verbatim>\<open>update\<close> returns. Its field
  \<^verbatim>\<open>standstill\<close> and the field \<^verbatim>\<open>standstill\<close> of its \<^verbatim>\<open>cruiseState\<close> carry a
  suffix, the name being taken by the attribute of \<^verbatim>\<open>self.CS\<close>.
\<close>

record WheelSpeeds =
  fl :: real
  fr :: real
  rl :: real
  rr :: real

record CruiseState =
  enabled :: bool
  speed :: real
  available :: bool
  speedOffset :: real
  standstill_cruise :: bool

record CarState_message =
  canValid :: bool
  vEgo :: real
  vEgoRaw :: real
  aEgo :: real
  yawRate :: real
  standstill_message :: bool
  wheelSpeeds :: WheelSpeeds
  gearShifter :: GearShifter
  gas :: real
  gasPressed :: bool
  brake :: real
  brakePressed :: bool
  brakeLights :: bool
  steeringAngle :: real
  steeringRate :: real
  steeringTorque :: real
  steeringTorqueEps :: real
  steeringPressed :: bool
  cruiseState :: CruiseState
  buttonEvents :: "ButtonEvent list"
  leftBlinker :: bool
  rightBlinker :: bool
  doorOpen :: bool
  seatbeltUnlatched :: bool
  genericToggle :: bool
  events :: "CarEvent list"

text \<open>\<^verbatim>\<open>car.CarState.new_message()\<close>: the schema's defaults.\<close>

definition new_CarState_message :: CarState_message where
  "new_CarState_message =
     \<lparr>canValid = False, vEgo = 0, vEgoRaw = 0, aEgo = 0, yawRate = 0,
      standstill_message = False, wheelSpeeds = \<lparr>fl = 0, fr = 0, rl = 0, rr = 0\<rparr>,
      gearShifter = GearShifter_unknown, gas = 0, gasPressed = False, brake = 0,
      brakePressed = False, brakeLights = False, steeringAngle = 0, steeringRate = 0,
      steeringTorque = 0, steeringTorqueEps = 0, steeringPressed = False,
      cruiseState = \<lparr>enabled = False, speed = 0, available = False, speedOffset = 0,
        standstill_cruise = False\<rparr>,
      buttonEvents = [], leftBlinker = False, rightBlinker = False, doorOpen = False,
      seatbeltUnlatched = False, genericToggle = False, events = []\<rparr>"

text \<open>
  The attributes of a \<^verbatim>\<open>CarInterface\<close> that \<^verbatim>\<open>__init__\<close> sets and
  \<^verbatim>\<open>update\<close> reads or writes itself. The objects \<^verbatim>\<open>self.CS\<close>, \<^verbatim>\<open>self.cp\<close> and
  \<^verbatim>\<open>self.cp_cam\<close> are refreshed by code outside the two files at the start of every
  \<^verbatim>\<open>update\<close> (lines 144 to 147); the model takes their state after that refresh as
  arguments of \<open>update\<close>.
\<close>

record CarInterface =
  CP :: CarParams
  frame :: int
  gas_pressed_prev :: bool
  brake_pressed_prev :: bool
  cruise_enabled_prev :: bool
  forwarding_camera :: bool

text \<open>\<^verbatim>\<open>CarInterface.__init__\<close>, without the objects built by imported constructors.\<close>

definition init :: "CarParams \<Rightarrow> CarInterface" where
  "init cp0 =
     \<lparr>CP = cp0, frame = 0, gas_pressed_prev = False, brake_pressed_prev = False,
      cruise_enabled_prev = False, forwarding_camera = False\<rparr>"

subsection \<open>\<^verbatim>\<open>CarInterface.update\<close>\<close>

text \<open>
  The body of \<^verbatim>\<open>update\<close> from line 150 on, statement by statement. \<open>cp\<close>,
  \<open>cp_cam\<close> and \<open>CS\<close> are \<^verbatim>\<open>self.cp\<close>, \<^verbatim>\<open>self.cp_cam\<close> and \<^verbatim>\<open>self.CS\<close>
  after the refresh of lines 144 to 147; \<open>yaw_rate\<close> is the method of the imported
  vehicle model \<^verbatim>\<open>self.VM\<close>. The result is the interface with its three remembered
  flags and \<^verbatim>\<open>forwarding_camera\<close> written, and the message returned.
\<close>

definition update ::
  "Conversions \<Rightarrow> (real \<Rightarrow> real \<Rightarrow> real) \<Rightarrow> CarInterface \<Rightarrow> CarControl
    \<Rightarrow> CANParser \<Rightarrow> CANParser \<Rightarrow> CarState \<Rightarrow> CarInterface \<times> CarState_message" where
  "update CV yaw_rate self c cp cp_cam CS =
    (let ret = new_CarState_message;
         ret = ret\<lparr>canValid := can_valid cp\<rparr>;
         ret = ret\<lparr>vEgo := v_ego CS\<rparr>;
         ret = ret\<lparr>vEgoRaw := v_ego_raw CS\<rparr>;
         ret = ret\<lparr>aEgo := a_ego CS\<rparr>;
         ret = ret\<lparr>yawRate := yaw_rate (angle_steers CS * DEG_TO_RAD CV) (v_ego CS)\<rparr>;
         ret = ret\<lparr>standstill_message := standstill CS\<rparr>;
         ret = ret\<lparr>wheelSpeeds := (wheelSpeeds ret)\<lparr>fl := v_wheel_fl CS\<rparr>\<rparr>;
         ret = ret\<lparr>wheelSpeeds := (wheelSpeeds ret)\<lparr>fr := v_wheel_fr CS\<rparr>\<rparr>;
         ret = ret\<lparr>wheelSpeeds := (wheelSpeeds ret)\<lparr>rl := v_wheel_rl CS\<rparr>\<rparr>;
         ret = ret\<lparr>wheelSpeeds := (wheelSpeeds ret)\<lparr>rr := v_wheel_rr CS\<rparr>\<rparr>;
         ret = ret\<lparr>gearShifter := gear_shifter CS\<rparr>;
         ret = ret\<lparr>gas := car_gas CS\<rparr>;
         ret =
           (if enableGasInterceptor (CP self) then ret\<lparr>gasPressed := (pedal_gas CS > 15)\<rparr>
            else ret\<lparr>gasPressed := (pedal_gas CS > 0)\<rparr>);
         ret = ret\<lparr>brake := user_brake CS\<rparr>;
         ret = ret\<lparr>brakePressed := (brake_pressed CS \<noteq> 0)\<rparr>;
         ret = ret\<lparr>brakeLights := brake_lights CS\<rparr>;
         ret = ret\<lparr>steeringAngle := angle_steers CS\<rparr>;
         ret = ret\<lparr>steeringRate := angle_steers_rate CS\<rparr>;
         ret = ret\<lparr>steeringTorque := steer_torque_driver CS\<rparr>;
         ret = ret\<lparr>steeringTorqueEps := steer_torque_motor CS\<rparr>;
         ret = ret\<lparr>steeringPressed := steer_override CS\<rparr>;
         ret = ret\<lparr>cruiseState := (cruiseState ret)\<lparr>enabled := pcm_acc_active CS\<rparr>\<rparr>;
         ret = ret\<lparr>cruiseState := (cruiseState ret)\<lparr>speed := v_cruise_pcm CS * KPH_TO_MS CV\<rparr>\<rparr>;
         ret = ret\<lparr>cruiseState := (cruiseState ret)\<lparr>available := main_on CS\<rparr>\<rparr>;
         ret = ret\<lparr>cruiseState := (cruiseState ret)\<lparr>speedOffset := 0\<rparr>\<rparr>;
         ret =
           (if carFingerprint (CP self) \<in> set NO_STOP_TIMER_CAR \<or> enableGasInterceptor (CP self)
            then ret\<lparr>cruiseState := (cruiseState ret)\<lparr>standstill_cruise := False\<rparr>\<rparr>
            else ret\<lparr>cruiseState :=
                   (cruiseState ret)\<lparr>standstill_cruise := (pcm_acc_status CS = 7)\<rparr>\<rparr>);
         buttonEvents = [];
         buttonEvents =
           (if left_blinker_on CS \<noteq> prev_left_blinker_on CS then
              buttonEvents @
                [\<lparr>type = ButtonType_leftBlinker, pressed = (left_blinker_on CS \<noteq> False)\<rparr>]
            else buttonEvents);
         buttonEvents =
           (if right_blinker_on CS \<noteq> prev_right_blinker_on CS then
              buttonEvents @
                [\<lparr>type = ButtonType_rightBlinker, pressed = (right_blinker_on CS \<noteq> False)\<rparr>]
            else buttonEvents);
         ret = ret\<lparr>buttonEvents := buttonEvents\<rparr>;
         ret = ret\<lparr>leftBlinker := left_blinker_on CS\<rparr>;
         ret = ret\<lparr>rightBlinker := right_blinker_on CS\<rparr>;
         ret = ret\<lparr>doorOpen := \<not> door_all_closed CS\<rparr>;
         ret = ret\<lparr>seatbeltUnlatched := \<not> seatbelt CS\<rparr>;
         ret = ret\<lparr>genericToggle := generic_toggle CS\<rparr>;
         events = [];
         self = (if can_valid cp_cam then self\<lparr>forwarding_camera := True\<rparr> else self);
         events =
           (if can_invalid_cnt cp_cam \<ge> 100 \<and> enableCamera (CP self) then
              events @ [create_event ''invalidGiraffeToyota'' [PERMANENT]]
            else events);
         events =
           (if \<not> gearShifter ret = GearShifter_drive \<and> enableDsu (CP self) then
              events @ [create_event ''wrongGear'' [NO_ENTRY, SOFT_DISABLE]]
            else events);
         events =
           (if doorOpen ret then events @ [create_event ''doorOpen'' [NO_ENTRY, SOFT_DISABLE]]
            else events);
         events =
           (if seatbeltUnlatched ret then
              events @ [create_event ''seatbeltNotLatched'' [NO_ENTRY, SOFT_DISABLE]]
            else events);
         events =
           (if esp_disabled CS \<and> enableDsu (CP self) then
              events @ [create_event ''espDisabled'' [NO_ENTRY, SOFT_DISABLE]]
            else events);
         events =
           (if \<not> main_on CS \<and> enableDsu (CP self) then
              events @ [create_event ''wrongCarMode'' [NO_ENTRY, USER_DISABLE]]
            else events);
         events =
           (if gearShifter ret = GearShifter_reverse \<and> enableDsu (CP self) then
              events @ [create_event ''reverseGear'' [NO_ENTRY, IMMEDIATE_DISABLE]]
            else events);
         events =
           (if steer_error CS then
              events @ [create_event ''steerTempUnavailable'' [NO_ENTRY, WARNING]]
            else events);
         events =
           (if low_speed_lockout CS \<and> enableDsu (CP self) then
              events @ [create_event ''lowSpeedLockout'' [NO_ENTRY, PERMANENT]]
            else events);
         events =
           (if vEgo ret < minEnableSpeed (CP self) \<and> enableDsu (CP self) then
              let events = events @ [create_event ''speedTooLow'' [NO_ENTRY]];
                  events =
                    (if actuators_gas (actuators c) > 0.1 then
                       events @ [create_event ''speedTooLow'' [IMMEDIATE_DISABLE]]
                     else events);
                  events =
                    (if vEgo ret < 0.001 then
                       events @ [create_event ''manualRestart'' [WARNING]]
                     else events)
              in events
            else events);
         events =
           (if enabled (cruiseState ret) \<and> \<not> cruise_enabled_prev self then
              events @ [create_event ''pcmEnable'' [ENABLE]]
            else if \<not> enabled (cruiseState ret) then
              events @ [create_event ''pcmDisable'' [USER_DISABLE]]
            else events);
         events =
           (if (gasPressed ret \<and> \<not> gas_pressed_prev self) \<or>
               (brakePressed ret \<and> (\<not> brake_pressed_prev self \<or> vEgo ret > 0.001)) then
              events @ [create_event ''pedalPressed'' [NO_ENTRY, USER_DISABLE]]
            else events);
         events =
           (if gasPressed ret then events @ [create_event ''pedalPressed'' [PRE_ENABLE]]
            else events);
         ret = ret\<lparr>events := events\<rparr>;
         self = self\<lparr>gas_pressed_prev := gasPressed ret\<rparr>;
         self = self\<lparr>brake_pressed_prev := brakePressed ret\<rparr>;
         self = self\<lparr>cruise_enabled_prev := enabled (cruiseState ret)\<rparr>
     in (self, ret))"

subsection \<open>Consecutive cycles\<close>

text \<open>
  \<^verbatim>\<open>update\<close> is called once per cycle on the same interface object. A cycle's input is
  the control message and the refreshed parsers and car state; \<open>run\<close> feeds a list of
  cycles to \<open>update\<close>, each call starting from the interface the previous one left, and
  collects the messages returned.
\<close>

record cycle_input =
  control :: CarControl
  parser :: CANParser
  cam_parser :: CANParser
  car_state :: CarState

fun run ::
  "Conversions \<Rightarrow> (real \<Rightarrow> real \<Rightarrow> real) \<Rightarrow> CarInterface \<Rightarrow> cycle_input list
    \<Rightarrow> CarState_message list" where
  "run CV yaw_rate self [] = []"
| "run CV yaw_rate self (x # xs) =
     (let (self', ret) =
            update CV yaw_rate self (control x) (parser x) (cam_parser x) (car_state x)
      in ret # run CV yaw_rate self' xs)"

subsection \<open>The ECU presence detector of the spec\<close>

text \<open>
  Modelled from the spec: \<^verbatim>\<open>is_ecu_disconnected\<close> is imported from
  \<^verbatim>\<open>selfdrive.car\<close> and is not part of the two files. After section 4.2 of the spec
  it is true iff none of the ECU's expected message ids occurs in the observed
  fingerprint or in any fingerprint row recorded for the identity. The arguments are
  those of the call in \<^verbatim>\<open>get_params\<close>.
\<close>

definition is_ecu_disconnected_spec ::
  "row \<Rightarrow> (string \<rightharpoonup> row list) \<Rightarrow> (nat \<rightharpoonup> nat list) \<Rightarrow> string \<Rightarrow> nat \<Rightarrow> bool" where
  "is_ecu_disconnected_spec fingerprint fingerprint_list ecu_fingerprint car ecu =
    (let ids = (case ecu_fingerprint ecu of None \<Rightarrow> [] | Some ms \<Rightarrow> ms);
         rows = fingerprint # (case fingerprint_list car of None \<Rightarrow> [] | Some rs \<Rightarrow> rs)
     in list_all (\<lambda>r. list_all (\<lambda>m. r m = None) ids) rows)"

subsection \<open>Example inputs\<close>

text \<open>
  Concrete inputs at which the theorems below are instantiated. The conversion factors and
  the cargo weight are the usual ones; the two scaling functions scale by mass and
  wheelbase relative to a reference vehicle, whose numbers are example values. None of
  them reaches a field the examples look at.
\<close>

definition CV_example :: Conversions where
  "CV_example =
     \<lparr>LB_TO_KG = 0.453592, KPH_TO_MS = 1 / 3.6, MPH_TO_MS = 0.44704,
      DEG_TO_RAD = 0.017453292519943295\<rparr>"

definition car_example :: selfdrive_car where
  "car_example =
     \<lparr>STD_CARGO_KG = 136,
      scale_rot_inertia = (\<lambda>m w. 2500 * m * w ^ 2 / (1462 * 2.7 ^ 2)),
      scale_tire_stiffness =
        (\<lambda>m w ctf factor.
           (192150 * factor * m / 1462 * ((w - ctf) / w) / 0.6,
            202500 * factor * m / 1462 * (ctf / w) / 0.4)),
      is_ecu_disconnected = is_ecu_disconnected_spec\<rparr>"

text \<open>
  A fingerprint whose bus 0 shows the first row recorded for \<^verbatim>\<open>CAR.OLD_CAR\<close> (the
  stock car, camera and DSU answering, interceptor id \<^verbatim>\<open>0x201\<close> present), and one
  whose bus 0 shows three messages only.
\<close>

definition fingerprint_stock :: fingerprint where
  "fingerprint_stock = [0 \<mapsto> map_of OLD_CAR_row1, 1 \<mapsto> Map.empty, 2 \<mapsto> Map.empty, 3 \<mapsto> Map.empty]"

definition fingerprint_bare :: fingerprint where
  "fingerprint_bare =
     [0 \<mapsto> [36 \<mapsto> 8, 37 \<mapsto> 8, 170 \<mapsto> 8], 1 \<mapsto> Map.empty, 2 \<mapsto> Map.empty, 3 \<mapsto> Map.empty]"

text \<open>
  Parameters of a car that is not stop-and-go capable, with camera and DSU simulated; a
  car state at rest in drive with everything in order; a quiet camera parser; a control
  message that commands no gas.
\<close>

definition CP_example :: CarParams where
  "CP_example =
     new_CarParams\<lparr>carName := ''other'', carFingerprint := OLD_CAR, enableCruise := True,
       enableCamera := True, enableDsu := True, openpilotLongitudinalControl := True,
       minEnableSpeed := 19 * 0.44704\<rparr>"

definition CS_example :: CarState where
  "CS_example =
     \<lparr>v_ego = 0, v_ego_raw = 0, a_ego = 0, angle_steers = 0, angle_steers_rate = 0,
      standstill = True, v_wheel_fl = 0, v_wheel_fr = 0, v_wheel_rl = 0, v_wheel_rr = 0,
      gear_shifter = GearShifter_drive, car_gas = 0, pedal_gas = 0, user_brake = 0,
      brake_pressed = 0, brake_lights = False, steer_torque_driver = 0,
      steer_torque_motor = 0, steer_override = False, pcm_acc_active = False,
      pcm_acc_status = 0, v_cruise_pcm = 0, main_on = True, left_blinker_on = False,
      prev_left_blinker_on = False, right_blinker_on = False, prev_right_blinker_on = False,
      door_all_closed = True, seatbelt = True, generic_toggle = False, esp_disabled = False,
      steer_error = False, low_speed_lockout = False\<rparr>"

definition cp_example :: CANParser where
  "cp_example = \<lparr>can_valid = True, can_invalid_cnt = 0\<rparr>"

definition c_example :: CarControl where
  "c_example = \<lparr>actuators = \<lparr>actuators_gas = 0\<rparr>\<rparr>"

definition yaw_rate_example :: "real \<Rightarrow> real \<Rightarrow> real" where
  "yaw_rate_example sa u = sa * u / (17 * 2.455)"

text \<open>A cycle in which nothing happens: the car at rest, the pedals released.\<close>

definition cycle_example :: cycle_input where
  "cycle_example =
     \<lparr>control = c_example, parser = cp_example, cam_parser = cp_example,
      car_state = CS_example\<rparr>"

section \<open>Properties\<close>

subsection \<open>What one call of \<^verbatim>\<open>update\<close> returns\<close>

text \<open>
  The fields of the returned message and of the interface that the properties below speak
  about, in closed form. The event list is the concatenation of the rules' contributions
  in the order of the source.
\<close>

lemma append_if: "(if b then xs @ ys else xs) = xs @ (if b then ys else [])"
  by simp

lemma if_append_common: "(if b then xs @ ys else xs @ zs) = xs @ (if b then ys else zs)"
  by simp

lemmas update_unfold = update_def Let_def new_CarState_message_def NO_STOP_TIMER_CAR_def

lemma update_gasPressed:
  "gasPressed (snd (update CV yaw_rate self c cp cp_cam CS)) =
     (if enableGasInterceptor (CP self) then pedal_gas CS > 15 else pedal_gas CS > 0)"
  by (cases "enableGasInterceptor (CP self)") (simp_all add: update_unfold append_if if_append_common split del: if_split cong: if_cong)

lemma update_brakePressed:
  "brakePressed (snd (update CV yaw_rate self c cp cp_cam CS)) = (brake_pressed CS \<noteq> 0)"
  by (cases "enableGasInterceptor (CP self)") (simp_all add: update_unfold append_if if_append_common split del: if_split cong: if_cong)

lemma update_vEgo: "vEgo (snd (update CV yaw_rate self c cp cp_cam CS)) = v_ego CS"
  by (cases "enableGasInterceptor (CP self)") (simp_all add: update_unfold append_if if_append_common split del: if_split cong: if_cong)

lemma update_enabled:
  "enabled (cruiseState (snd (update CV yaw_rate self c cp cp_cam CS))) = pcm_acc_active CS"
  by (cases "enableGasInterceptor (CP self)") (simp_all add: update_unfold append_if if_append_common split del: if_split cong: if_cong)

lemma update_leftBlinker:
  "leftBlinker (snd (update CV yaw_rate self c cp cp_cam CS)) = left_blinker_on CS"
  by (cases "enableGasInterceptor (CP self)") (simp_all add: update_unfold append_if if_append_common split del: if_split cong: if_cong)

lemma update_rightBlinker:
  "rightBlinker (snd (update CV yaw_rate self c cp cp_cam CS)) = right_blinker_on CS"
  by (cases "enableGasInterceptor (CP self)") (simp_all add: update_unfold append_if if_append_common split del: if_split cong: if_cong)

lemma update_buttonEvents:
  "buttonEvents (snd (update CV yaw_rate self c cp cp_cam CS)) =
     (if left_blinker_on CS \<noteq> prev_left_blinker_on CS
      then [\<lparr>type = ButtonType_leftBlinker, pressed = left_blinker_on CS\<rparr>] else []) @
     (if right_blinker_on CS \<noteq> prev_right_blinker_on CS
      then [\<lparr>type = ButtonType_rightBlinker, pressed = right_blinker_on CS\<rparr>] else [])"
  by (cases "enableGasInterceptor (CP self)")
     (simp_all add: update_unfold append_if if_append_common split del: if_split cong: if_cong)

lemma update_self:
  "fst (update CV yaw_rate self c cp cp_cam CS) =
     self\<lparr>forwarding_camera := (can_valid cp_cam \<or> forwarding_camera self),
          gas_pressed_prev := gasPressed (snd (update CV yaw_rate self c cp cp_cam CS)),
          brake_pressed_prev := brakePressed (snd (update CV yaw_rate self c cp cp_cam CS)),
          cruise_enabled_prev := enabled (cruiseState (snd (update CV yaw_rate self c cp cp_cam CS)))\<rparr>"
  by (cases "enableGasInterceptor (CP self)"; cases "can_valid cp_cam")
     (simp_all add: update_unfold append_if if_append_common split del: if_split cong: if_cong)

lemma update_events:
  "events (snd (update CV yaw_rate self c cp cp_cam CS)) =
     (if can_invalid_cnt cp_cam \<ge> 100 \<and> enableCamera (CP self)
      then [create_event ''invalidGiraffeToyota'' [PERMANENT]] else []) @
     (if gear_shifter CS \<noteq> GearShifter_drive \<and> enableDsu (CP self)
      then [create_event ''wrongGear'' [NO_ENTRY, SOFT_DISABLE]] else []) @
     (if \<not> door_all_closed CS
      then [create_event ''doorOpen'' [NO_ENTRY, SOFT_DISABLE]] else []) @
     (if \<not> seatbelt CS
      then [create_event ''seatbeltNotLatched'' [NO_ENTRY, SOFT_DISABLE]] else []) @
     (if esp_disabled CS \<and> enableDsu (CP self)
      then [create_event ''espDisabled'' [NO_ENTRY, SOFT_DISABLE]] else []) @
     (if \<not> main_on CS \<and> enableDsu (CP self)
      then [create_event ''wrongCarMode'' [NO_ENTRY, USER_DISABLE]] else []) @
     (if gear_shifter CS = GearShifter_reverse \<and> enableDsu (CP self)
      then [create_event ''reverseGear'' [NO_ENTRY, IMMEDIATE_DISABLE]] else []) @
     (if steer_error CS
      then [create_event ''steerTempUnavailable'' [NO_ENTRY, WARNING]] else []) @
     (if low_speed_lockout CS \<and> enableDsu (CP self)
      then [create_event ''lowSpeedLockout'' [NO_ENTRY, PERMANENT]] else []) @
     (if v_ego CS < minEnableSpeed (CP self) \<and> enableDsu (CP self)
      then [create_event ''speedTooLow'' [NO_ENTRY]] @
           (if actuators_gas (actuators c) > 0.1
            then [create_event ''speedTooLow'' [IMMEDIATE_DISABLE]] else []) @
           (if v_ego CS < 0.001 then [create_event ''manualRestart'' [WARNING]] else [])
      else []) @
     (if pcm_acc_active CS \<and> \<not> cruise_enabled_prev self
      then [create_event ''pcmEnable'' [ENABLE]]
      else if \<not> pcm_acc_active CS then [create_event ''pcmDisable'' [USER_DISABLE]] else []) @
     (if ((if enableGasInterceptor (CP self) then pedal_gas CS > 15 else pedal_gas CS > 0)
            \<and> \<not> gas_pressed_prev self) \<or>
         (brake_pressed CS \<noteq> 0 \<and> (\<not> brake_pressed_prev self \<or> v_ego CS > 0.001))
      then [create_event ''pedalPressed'' [NO_ENTRY, USER_DISABLE]] else []) @
     (if (if enableGasInterceptor (CP self) then pedal_gas CS > 15 else pedal_gas CS > 0)
      then [create_event ''pedalPressed'' [PRE_ENABLE]] else [])"
  by (cases "enableGasInterceptor (CP self)"; cases "can_valid cp_cam")
     (simp_all add: update_unfold append_if if_append_common split del: if_split cong: if_cong)

lemma ET_sets_differ: "{NO_ENTRY, USER_DISABLE} \<noteq> {PRE_ENABLE}"
  by auto

lemma driver_override_count:
  "count_list (events (snd (update CV yaw_rate self c cp cp_cam CS)))
       (create_event ''pedalPressed'' [NO_ENTRY, USER_DISABLE]) =
     (if (gasPressed (snd (update CV yaw_rate self c cp cp_cam CS)) \<and> \<not> gas_pressed_prev self)
         \<or> (brakePressed (snd (update CV yaw_rate self c cp cp_cam CS)) \<and> \<not> brake_pressed_prev self)
         \<or> (brakePressed (snd (update CV yaw_rate self c cp cp_cam CS))
             \<and> vEgo (snd (update CV yaw_rate self c cp cp_cam CS)) > 0.001)
      then 1 else 0)"
  using ET_sets_differ
  by (auto simp add: update_vEgo update_events update_gasPressed update_brakePressed create_event_def)

lemma engage_count:
  "count_list (events (snd (update CV yaw_rate self c cp cp_cam CS)))
       (create_event ''pcmEnable'' [ENABLE]) =
     (if enabled (cruiseState (snd (update CV yaw_rate self c cp cp_cam CS)))
         \<and> \<not> cruise_enabled_prev self then 1 else 0)"
  by (simp add: update_events update_enabled create_event_def)

lemma disengage_count:
  "count_list (events (snd (update CV yaw_rate self c cp cp_cam CS)))
       (create_event ''pcmDisable'' [USER_DISABLE]) =
     (if \<not> enabled (cruiseState (snd (update CV yaw_rate self c cp cp_cam CS))) then 1 else 0)"
  by (simp add: update_events update_enabled create_event_def)

lemma sum_list_ones:
  "(\<forall>r \<in> set rs. f r = (1 :: nat)) \<Longrightarrow> sum_list (map f rs) = length rs"
  by (induction rs) simp_all

subsection \<open>Consecutive calls\<close>

text \<open>
  Every message of a run is returned by a call of \<open>update\<close>, and from the second
  cycle on the interface that call starts from remembers the pedal and cruise flags of
  the message before.
\<close>

lemma run_Cons:
  "run CV yaw_rate self (x # xs) =
     snd (update CV yaw_rate self (control x) (parser x) (cam_parser x) (car_state x)) #
     run CV yaw_rate
       (fst (update CV yaw_rate self (control x) (parser x) (cam_parser x) (car_state x))) xs"
  by (simp add: case_prod_beta)

lemma length_run: "length (run CV yaw_rate self xs) = length xs"
  by (induction xs arbitrary: self) (simp_all add: case_prod_beta)

lemma run_nth:
  "i < length xs \<Longrightarrow>
     \<exists>s. run CV yaw_rate self xs ! i =
       snd (update CV yaw_rate s (control (xs ! i)) (parser (xs ! i)) (cam_parser (xs ! i))
         (car_state (xs ! i)))"
proof (induction xs arbitrary: self i)
  case Nil
  then show ?case by simp
next
  case (Cons x xs)
  show ?case
  proof (cases i)
    case 0
    then show ?thesis unfolding run_Cons by auto
  next
    case (Suc j)
    with Cons.prems have "j < length xs" by simp
    from Cons.IH [OF this] Suc show ?thesis unfolding run_Cons by simp
  qed
qed

lemma run_Suc_nth:
  "Suc i < length xs \<Longrightarrow>
     \<exists>s. run CV yaw_rate self xs ! Suc i =
           snd (update CV yaw_rate s (control (xs ! Suc i)) (parser (xs ! Suc i))
             (cam_parser (xs ! Suc i)) (car_state (xs ! Suc i)))
       \<and> gas_pressed_prev s = gasPressed (run CV yaw_rate self xs ! i)
       \<and> brake_pressed_prev s = brakePressed (run CV yaw_rate self xs ! i)
       \<and> cruise_enabled_prev s = enabled (cruiseState (run CV yaw_rate self xs ! i))"
proof (induction xs arbitrary: self i)
  case Nil
  then show ?case by simp
next
  case (Cons x xs)
  let ?s1 = "fst (update CV yaw_rate self (control x) (parser x) (cam_parser x) (car_state x))"
  show ?case
  proof (cases i)
    case 0
    with Cons.prems obtain y ys where xs: "xs = y # ys" by (cases xs) auto
    have "gas_pressed_prev ?s1 =
            gasPressed (snd (update CV yaw_rate self (control x) (parser x) (cam_parser x) (car_state x)))"
      and "brake_pressed_prev ?s1 =
            brakePressed (snd (update CV yaw_rate self (control x) (parser x) (cam_parser x) (car_state x)))"
      and "cruise_enabled_prev ?s1 =
            enabled (cruiseState (snd (update CV yaw_rate self (control x) (parser x) (cam_parser x) (car_state x))))"
      by (subst update_self, simp)+
    then show ?thesis unfolding 0 xs run_Cons by (intro exI [of _ ?s1]) simp
  next
    case (Suc j)
    with Cons.prems have "Suc j < length xs" by simp
    from Cons.IH [OF this, of ?s1] Suc show ?thesis unfolding run_Cons by simp
  qed
qed

text \<open>The definitions of the example inputs, unfolded when a theorem is instantiated.\<close>

lemmas example_defs =
  init_def CP_example_def CS_example_def cp_example_def c_example_def cycle_example_def
  new_CarParams_def

subsection \<open>What \<^verbatim>\<open>get_params\<close> returns\<close>

text \<open>
  \<^verbatim>\<open>get_params\<close> returns for \<^verbatim>\<open>CAR.OLD_CAR\<close> with a fingerprint that has an entry
  for bus 0, and raises otherwise: for any other identity at the first read of
  \<^verbatim>\<open>tire_stiffness_factor\<close> (line 93), for a fingerprint without bus 0 at line 105.
\<close>

lemma get_params_unknown:
  "candidate \<noteq> OLD_CAR \<Longrightarrow>
     get_params CV lib candidate fingerprint vin has_relay =
       Inl (UnboundLocalError ''tire_stiffness_factor'')"
  by (simp add: get_params_def Let_def)

lemma get_params_no_bus0:
  "fingerprint 0 = None \<Longrightarrow>
     get_params CV lib OLD_CAR fingerprint vin has_relay = Inl (KeyError 0)"
  by (simp add: get_params_def Let_def split: prod.splits)

lemma get_params_OLD_CAR:
  assumes "fingerprint 0 = Some row0"
  shows "\<exists>r. get_params CV lib OLD_CAR fingerprint vin has_relay = Inr r
    \<and> enableCruise r
    \<and> enableCamera r =
        (is_ecu_disconnected lib row0 FINGERPRINTS ECU_FINGERPRINT OLD_CAR CAM \<or> has_relay)
    \<and> enableDsu r = is_ecu_disconnected lib row0 FINGERPRINTS ECU_FINGERPRINT OLD_CAR DSU
    \<and> enableGasInterceptor r = (row0 513 \<noteq> None)
    \<and> minEnableSpeed r = - 1
    \<and> gasMaxBP r = (if row0 513 \<noteq> None then [0, 9, 35] else [0])
    \<and> gasMaxV r = (if row0 513 \<noteq> None then [0.2, 0.5, 0.7] else [0.5])
    \<and> kpV (longitudinalTuning r) = (if row0 513 \<noteq> None then [1.2, 0.8, 0.5] else [3.6, 2.4, 1.5])"
  using assms
  by (simp add: get_params_def Let_def new_CarParams_def TSS2_CAR_def split: prod.splits)

lemma get_params_returns:
  assumes "get_params CV lib candidate fingerprint vin has_relay = Inr r"
  shows "candidate = OLD_CAR \<and> (\<exists>row0. fingerprint 0 = Some row0)"
proof -
  have c: "candidate = OLD_CAR"
    using assms get_params_unknown [of candidate CV lib fingerprint vin has_relay] by auto
  have "fingerprint 0 \<noteq> None"
    using assms c get_params_no_bus0 [of fingerprint CV lib vin has_relay] by auto
  with c show ?thesis by auto
qed

lemma stock_DSU_answers:
  "is_ecu_disconnected_spec (map_of OLD_CAR_row1) FINGERPRINTS ECU_FINGERPRINT OLD_CAR DSU = False"
  by (simp add: is_ecu_disconnected_spec_def ECU_FINGERPRINT_def FINGERPRINTS_def DSU_def CAM_def APGS_def
      OLD_CAR_row1_def)

text \<open>
  Claim C1. For every vehicle identity other than \<^verbatim>\<open>CAR.OLD_CAR\<close>, the only member of
  the registry, \<^verbatim>\<open>get_params\<close> fails with an error and returns no parameter record,
  whatever the fingerprint, the VIN and the relay flag: the call raises
  \<^verbatim>\<open>UnboundLocalError\<close> for \<^verbatim>\<open>tire_stiffness_factor\<close>.
\<close>

theorem unknown_identity_raises:
  "candidate \<noteq> OLD_CAR \<Longrightarrow>
     get_params CV lib candidate fingerprint vin has_relay =
       Inl (UnboundLocalError ''tire_stiffness_factor'')
     \<and> (\<forall>r. get_params CV lib candidate fingerprint vin has_relay \<noteq> Inr r)"
  by (simp add: get_params_unknown)

text \<open>An identity outside the registry, at the example inputs.\<close>

theorem unknown_identity_raises_witness:
  "get_params CV_example car_example ''PRIUS'' fingerprint_stock ''JT000'' True =
     Inl (UnboundLocalError ''tire_stiffness_factor'')"
  using unknown_identity_raises [of "''PRIUS''" CV_example car_example fingerprint_stock "''JT000''" True]
  by (simp add: OLD_CAR_def)

text \<open>
  Claim C2, as amended. With the relay flag true, every record \<^verbatim>\<open>get_params\<close> returns
  has \<^verbatim>\<open>enableCamera\<close> true, and its \<^verbatim>\<open>enableDsu\<close> is the result of the ECU
  presence detector for the DSU: the relay flag forces the DSU only for the members of
  \<^verbatim>\<open>TSS2_CAR\<close>, which is empty. A record is returned for \<^verbatim>\<open>CAR.OLD_CAR\<close> whenever
  the fingerprint has an entry for bus 0. The detector is any predicate.
\<close>

theorem relay_forces_camera_only:
  "(\<forall>r. get_params CV lib candidate fingerprint vin True = Inr r \<longrightarrow>
      enableCamera r
      \<and> (\<exists>row0. fingerprint 0 = Some row0
           \<and> enableDsu r =
               is_ecu_disconnected lib row0 FINGERPRINTS ECU_FINGERPRINT candidate DSU))
   \<and> (fingerprint 0 \<noteq> None \<longrightarrow>
        (\<exists>r. get_params CV lib OLD_CAR fingerprint vin True = Inr r))"
proof (intro conjI allI impI)
  fix r assume r: "get_params CV lib candidate fingerprint vin True = Inr r"
  from get_params_returns [OF r] obtain row0 where
    c: "candidate = OLD_CAR" and f: "fingerprint 0 = Some row0" by auto
  from r c f get_params_OLD_CAR [of fingerprint row0 CV lib vin True]
  show "enableCamera r" by auto
  from r c f get_params_OLD_CAR [of fingerprint row0 CV lib vin True]
  show "\<exists>row0. fingerprint 0 = Some row0
           \<and> enableDsu r =
               is_ecu_disconnected lib row0 FINGERPRINTS ECU_FINGERPRINT candidate DSU"
    by auto
next
  assume "fingerprint 0 \<noteq> None"
  then obtain row0 where "fingerprint 0 = Some row0" by auto
  then show "\<exists>r. get_params CV lib OLD_CAR fingerprint vin True = Inr r"
    using get_params_OLD_CAR [of fingerprint row0 CV lib vin True] by auto
qed

text \<open>
  The stock car with the relay, under the detector of the spec: the camera is simulated,
  the DSU is not.
\<close>

theorem relay_forces_camera_only_witness:
  "\<exists>r. get_params CV_example car_example OLD_CAR fingerprint_stock ''JT000'' True = Inr r
     \<and> enableCamera r \<and> \<not> enableDsu r"
  using relay_forces_camera_only
    [of CV_example car_example OLD_CAR fingerprint_stock "''JT000''"] stock_DSU_answers
  by (auto simp add: fingerprint_stock_def car_example_def)

text \<open>
  Claim C2 as stated fails: for \<^verbatim>\<open>CAR.OLD_CAR\<close> with the relay flag true and a
  fingerprint in which the DSU's message \<^verbatim>\<open>0x343\<close> is present, \<^verbatim>\<open>enableCamera\<close> is
  true and \<^verbatim>\<open>enableDsu\<close> is false. The DSU's message is in the observed fingerprint
  and in every row recorded for the identity, so the detector reports the DSU as present
  however section 4.2 of the spec is read.
\<close>

theorem relay_does_not_force_DSU:
  "map_sum id (\<lambda>r. (enableCamera r, enableDsu r))
     (get_params CV_example car_example OLD_CAR fingerprint_stock ''JT000'' True) =
   Inr (True, False)"
  using get_params_OLD_CAR [of fingerprint_stock "map_of OLD_CAR_row1" CV_example car_example "''JT000''" True]
    stock_DSU_answers
  by (auto simp add: fingerprint_stock_def car_example_def)

text \<open>
  Claim C9. For \<^verbatim>\<open>CAR.OLD_CAR\<close> and a fingerprint whose bus 0 does not contain the
  interceptor message \<^verbatim>\<open>0x201\<close>, \<^verbatim>\<open>get_params\<close> returns a record with
  \<^verbatim>\<open>minEnableSpeed\<close> \<open>- 1\<close>, gas limit values \<open>[0.5]\<close> at breakpoints \<open>[0]\<close> and
  longitudinal proportional gains \<open>[3.6, 2.4, 1.5]\<close>.
\<close>

theorem reference_vehicle_without_interceptor:
  "fingerprint 0 = Some row0 \<Longrightarrow> row0 513 = None \<Longrightarrow>
     \<exists>r. get_params CV lib OLD_CAR fingerprint vin has_relay = Inr r
       \<and> minEnableSpeed r = - 1 \<and> gasMaxV r = [0.5] \<and> gasMaxBP r = [0]
       \<and> kpV (longitudinalTuning r) = [3.6, 2.4, 1.5]"
  using get_params_OLD_CAR [of fingerprint row0 CV lib vin has_relay] by auto

text \<open>The reference vehicle with three messages on bus 0.\<close>

theorem reference_vehicle_without_interceptor_witness:
  "\<exists>r. get_params CV_example car_example OLD_CAR fingerprint_bare ''JT000'' False = Inr r
       \<and> minEnableSpeed r = - 1 \<and> gasMaxV r = [0.5] \<and> gasMaxBP r = [0]
       \<and> kpV (longitudinalTuning r) = [3.6, 2.4, 1.5]"
  using reference_vehicle_without_interceptor
    [of fingerprint_bare "[36 \<mapsto> 8, 37 \<mapsto> 8, 170 \<mapsto> 8]" CV_example car_example "''JT000''" False]
  by (simp add: fingerprint_bare_def)

text \<open>
  Claim C10. Every record \<^verbatim>\<open>get_params\<close> returns has \<^verbatim>\<open>enableCruise\<close> true,
  whatever the identity, the fingerprint, the VIN and the relay flag; and for
  \<^verbatim>\<open>CAR.OLD_CAR\<close> with the interceptor message on bus 0 a record is returned in which
  the interceptor is detected and \<^verbatim>\<open>enableCruise\<close> is true all the same, the field
  being computed at line 54 from the default of \<^verbatim>\<open>enableGasInterceptor\<close>, before
  line 108 assigns it.
\<close>

theorem enableCruise_always_true:
  "(\<forall>r. get_params CV lib candidate fingerprint vin has_relay = Inr r \<longrightarrow> enableCruise r)
   \<and> (fingerprint 0 = Some row0 \<and> row0 513 \<noteq> None \<longrightarrow>
        (\<exists>r. get_params CV lib OLD_CAR fingerprint vin has_relay = Inr r
           \<and> enableGasInterceptor r \<and> enableCruise r))"
proof (intro conjI allI impI)
  fix r assume r: "get_params CV lib candidate fingerprint vin has_relay = Inr r"
  from get_params_returns [OF r] obtain row0 where
    "candidate = OLD_CAR" "fingerprint 0 = Some row0" by auto
  with r get_params_OLD_CAR [of fingerprint row0 CV lib vin has_relay]
  show "enableCruise r" by auto
next
  assume "fingerprint 0 = Some row0 \<and> row0 513 \<noteq> None"
  then show "\<exists>r. get_params CV lib OLD_CAR fingerprint vin has_relay = Inr r
           \<and> enableGasInterceptor r \<and> enableCruise r"
    using get_params_OLD_CAR [of fingerprint row0 CV lib vin has_relay] by auto
qed

text \<open>The stock car, whose bus 0 shows the interceptor message.\<close>

theorem enableCruise_always_true_witness:
  "\<exists>r. get_params CV_example car_example OLD_CAR fingerprint_stock ''JT000'' False = Inr r
        \<and> enableGasInterceptor r \<and> enableCruise r"
  using enableCruise_always_true
    [of CV_example car_example OLD_CAR fingerprint_stock "''JT000''" False "map_of OLD_CAR_row1"]
  by (simp add: fingerprint_stock_def OLD_CAR_row1_def)

subsection \<open>The canonical state\<close>

text \<open>
  Claim C7. The returned \<^verbatim>\<open>gasPressed\<close> has an exact threshold: with the gas
  interceptor present (\<^verbatim>\<open>CP.enableGasInterceptor\<close>) it is true iff the raw pedal value
  is strictly greater than 15, so false at exactly 15; without the interceptor it is true
  iff the raw pedal value is strictly greater than 0.
\<close>

theorem gasPressed_threshold:
  "gasPressed (snd (update CV yaw_rate self c cp cp_cam CS)) =
     (if enableGasInterceptor (CP self) then pedal_gas CS > 15 else pedal_gas CS > 0)"
  by (rule update_gasPressed)

text \<open>The boundaries: 15 and 15.5 with the interceptor, 0 and 0.5 without.\<close>

theorem gasPressed_threshold_witness:
  "\<not> gasPressed (snd (update CV_example yaw_rate_example
        (init (CP_example\<lparr>enableGasInterceptor := True\<rparr>)) c_example cp_example cp_example
        (CS_example\<lparr>pedal_gas := 15\<rparr>)))
   \<and> gasPressed (snd (update CV_example yaw_rate_example
        (init (CP_example\<lparr>enableGasInterceptor := True\<rparr>)) c_example cp_example cp_example
        (CS_example\<lparr>pedal_gas := 15.5\<rparr>)))
   \<and> \<not> gasPressed (snd (update CV_example yaw_rate_example
        (init CP_example) c_example cp_example cp_example (CS_example\<lparr>pedal_gas := 0\<rparr>)))
   \<and> gasPressed (snd (update CV_example yaw_rate_example
        (init CP_example) c_example cp_example cp_example (CS_example\<lparr>pedal_gas := 0.5\<rparr>)))"
  by (simp add: gasPressed_threshold init_def CP_example_def new_CarParams_def)

text \<open>
  Claim C8. For each side, a call of \<open>update\<close> emits a blinker button event iff the
  side's blinker flag differs from the previous cycle's value the car state carries, it
  emits one, and the event's \<^verbatim>\<open>pressed\<close> is the new flag. In a run whose car states
  from the second cycle on carry the flag of the cycle before as previous value and leave
  the flag unchanged, no cycle after the first emits a blinker event for that side.
\<close>

theorem blinker_button_events:
  "(let ret = snd (update CV yaw_rate self c cp cp_cam CS)
    in filter (\<lambda>b. type b = ButtonType_leftBlinker) (buttonEvents ret) =
         (if leftBlinker ret \<noteq> prev_left_blinker_on CS
          then [\<lparr>type = ButtonType_leftBlinker, pressed = leftBlinker ret\<rparr>] else [])
       \<and> filter (\<lambda>b. type b = ButtonType_rightBlinker) (buttonEvents ret) =
         (if rightBlinker ret \<noteq> prev_right_blinker_on CS
          then [\<lparr>type = ButtonType_rightBlinker, pressed = rightBlinker ret\<rparr>] else []))
   \<and> ((\<forall>i. Suc i < length xs \<longrightarrow>
          prev_left_blinker_on (car_state (xs ! Suc i)) = left_blinker_on (car_state (xs ! i))
          \<and> left_blinker_on (car_state (xs ! Suc i)) = left_blinker_on (car_state (xs ! i))) \<longrightarrow>
        (\<forall>i. Suc i < length xs \<longrightarrow>
           filter (\<lambda>b. type b = ButtonType_leftBlinker)
             (buttonEvents (run CV yaw_rate self xs ! Suc i)) = []))
   \<and> ((\<forall>i. Suc i < length xs \<longrightarrow>
          prev_right_blinker_on (car_state (xs ! Suc i)) = right_blinker_on (car_state (xs ! i))
          \<and> right_blinker_on (car_state (xs ! Suc i)) = right_blinker_on (car_state (xs ! i))) \<longrightarrow>
        (\<forall>i. Suc i < length xs \<longrightarrow>
           filter (\<lambda>b. type b = ButtonType_rightBlinker)
             (buttonEvents (run CV yaw_rate self xs ! Suc i)) = []))"
proof (intro conjI impI allI)
  show "(let ret = snd (update CV yaw_rate self c cp cp_cam CS)
    in filter (\<lambda>b. type b = ButtonType_leftBlinker) (buttonEvents ret) =
         (if leftBlinker ret \<noteq> prev_left_blinker_on CS
          then [\<lparr>type = ButtonType_leftBlinker, pressed = leftBlinker ret\<rparr>] else [])
       \<and> filter (\<lambda>b. type b = ButtonType_rightBlinker) (buttonEvents ret) =
         (if rightBlinker ret \<noteq> prev_right_blinker_on CS
          then [\<lparr>type = ButtonType_rightBlinker, pressed = rightBlinker ret\<rparr>] else []))"
    by (simp add: Let_def update_buttonEvents update_leftBlinker update_rightBlinker)
next
  fix i
  assume chain: "\<forall>i. Suc i < length xs \<longrightarrow>
          prev_left_blinker_on (car_state (xs ! Suc i)) = left_blinker_on (car_state (xs ! i))
          \<and> left_blinker_on (car_state (xs ! Suc i)) = left_blinker_on (car_state (xs ! i))"
    and i: "Suc i < length xs"
  from run_nth [OF i, of CV yaw_rate self] obtain s where
    "run CV yaw_rate self xs ! Suc i =
       snd (update CV yaw_rate s (control (xs ! Suc i)) (parser (xs ! Suc i))
         (cam_parser (xs ! Suc i)) (car_state (xs ! Suc i)))"
    by blast
  with chain i show "filter (\<lambda>b. type b = ButtonType_leftBlinker)
             (buttonEvents (run CV yaw_rate self xs ! Suc i)) = []"
    by (simp add: update_buttonEvents)
next
  fix i
  assume chain: "\<forall>i. Suc i < length xs \<longrightarrow>
          prev_right_blinker_on (car_state (xs ! Suc i)) = right_blinker_on (car_state (xs ! i))
          \<and> right_blinker_on (car_state (xs ! Suc i)) = right_blinker_on (car_state (xs ! i))"
    and i: "Suc i < length xs"
  from run_nth [OF i, of CV yaw_rate self] obtain s where
    "run CV yaw_rate self xs ! Suc i =
       snd (update CV yaw_rate s (control (xs ! Suc i)) (parser (xs ! Suc i))
         (cam_parser (xs ! Suc i)) (car_state (xs ! Suc i)))"
    by blast
  with chain i show "filter (\<lambda>b. type b = ButtonType_rightBlinker)
             (buttonEvents (run CV yaw_rate self xs ! Suc i)) = []"
    by (simp add: update_buttonEvents)
qed

text \<open>
  The left blinker switched on in the first of three cycles and left on: one event with
  \<^verbatim>\<open>pressed\<close> true in the first cycle, none in the second and third.
\<close>

theorem blinker_button_events_witness:
  "filter (\<lambda>b. type b = ButtonType_leftBlinker)
     (buttonEvents (snd (update CV_example yaw_rate_example (init CP_example) c_example
        cp_example cp_example (CS_example\<lparr>left_blinker_on := True\<rparr>)))) =
     [\<lparr>type = ButtonType_leftBlinker, pressed = True\<rparr>]
   \<and> filter (\<lambda>b. type b = ButtonType_leftBlinker)
     (buttonEvents (run CV_example yaw_rate_example (init CP_example)
        [cycle_example\<lparr>car_state := CS_example\<lparr>left_blinker_on := True\<rparr>\<rparr>,
         cycle_example\<lparr>car_state :=
           CS_example\<lparr>left_blinker_on := True, prev_left_blinker_on := True\<rparr>\<rparr>,
         cycle_example\<lparr>car_state :=
           CS_example\<lparr>left_blinker_on := True, prev_left_blinker_on := True\<rparr>\<rparr>] ! 1)) = []
   \<and> filter (\<lambda>b. type b = ButtonType_leftBlinker)
     (buttonEvents (run CV_example yaw_rate_example (init CP_example)
        [cycle_example\<lparr>car_state := CS_example\<lparr>left_blinker_on := True\<rparr>\<rparr>,
         cycle_example\<lparr>car_state :=
           CS_example\<lparr>left_blinker_on := True, prev_left_blinker_on := True\<rparr>\<rparr>,
         cycle_example\<lparr>car_state :=
           CS_example\<lparr>left_blinker_on := True, prev_left_blinker_on := True\<rparr>\<rparr>] ! 2)) = []"
proof -
  let ?xs = "[cycle_example\<lparr>car_state := CS_example\<lparr>left_blinker_on := True\<rparr>\<rparr>,
         cycle_example\<lparr>car_state :=
           CS_example\<lparr>left_blinker_on := True, prev_left_blinker_on := True\<rparr>\<rparr>,
         cycle_example\<lparr>car_state :=
           CS_example\<lparr>left_blinker_on := True, prev_left_blinker_on := True\<rparr>\<rparr>]"
  note inst = blinker_button_events [of CV_example yaw_rate_example "init CP_example" c_example
      cp_example cp_example "CS_example\<lparr>left_blinker_on := True\<rparr>" ?xs]
  have chain: "\<forall>i. Suc i < length ?xs \<longrightarrow>
          prev_left_blinker_on (car_state (?xs ! Suc i)) = left_blinker_on (car_state (?xs ! i))
          \<and> left_blinker_on (car_state (?xs ! Suc i)) = left_blinker_on (car_state (?xs ! i))"
    by (auto simp add: less_Suc_eq example_defs)
  from inst chain have later: "\<forall>i. Suc i < length ?xs \<longrightarrow>
           filter (\<lambda>b. type b = ButtonType_leftBlinker)
             (buttonEvents (run CV_example yaw_rate_example (init CP_example) ?xs ! Suc i)) = []"
    by blast
  from later [rule_format, of 0] later [rule_format, of 1] inst
  show ?thesis
    by (simp add: Let_def case_prod_beta update_leftBlinker example_defs)
qed

subsection \<open>The safety events\<close>

text \<open>
  Claim C3. In a cycle with speed below \<^verbatim>\<open>CP.minEnableSpeed\<close> and the DSU simulated
  (\<^verbatim>\<open>CP.enableDsu\<close>), the event \<^verbatim>\<open>speedTooLow\<close> with \<^verbatim>\<open>NO_ENTRY\<close> is emitted
  once; \<^verbatim>\<open>speedTooLow\<close> with \<^verbatim>\<open>IMMEDIATE_DISABLE\<close> is emitted, once, iff the
  commanded gas exceeds 0.1; \<^verbatim>\<open>manualRestart\<close> with \<^verbatim>\<open>WARNING\<close> is emitted, once,
  iff the speed is below 0.001. In every cycle, \<^verbatim>\<open>speedTooLow\<close> with
  \<^verbatim>\<open>IMMEDIATE_DISABLE\<close> is in the output only if \<^verbatim>\<open>speedTooLow\<close> with
  \<^verbatim>\<open>NO_ENTRY\<close> is.
\<close>

theorem speed_too_low_rule:
  "(let ret = snd (update CV yaw_rate self c cp cp_cam CS);
        base = create_event ''speedTooLow'' [NO_ENTRY];
        disable = create_event ''speedTooLow'' [IMMEDIATE_DISABLE];
        restart = create_event ''manualRestart'' [WARNING]
    in (vEgo ret < minEnableSpeed (CP self) \<and> enableDsu (CP self) \<longrightarrow>
          count_list (events ret) base = 1
          \<and> count_list (events ret) disable = (if actuators_gas (actuators c) > 0.1 then 1 else 0)
          \<and> count_list (events ret) restart = (if vEgo ret < 0.001 then 1 else 0))
       \<and> (disable \<in> set (events ret) \<longrightarrow> base \<in> set (events ret)))"
  by (simp add: Let_def update_vEgo update_events create_event_def)

text \<open>
  At rest below the minimum enable speed, with a commanded gas of 0.2: the three events,
  once each.
\<close>

theorem speed_too_low_rule_witness:
  "count_list
     (events (snd (update CV_example yaw_rate_example (init CP_example)
        \<lparr>actuators = \<lparr>actuators_gas = 0.2\<rparr>\<rparr> cp_example cp_example CS_example)))
     (create_event ''speedTooLow'' [NO_ENTRY]) = 1
   \<and> count_list
     (events (snd (update CV_example yaw_rate_example (init CP_example)
        \<lparr>actuators = \<lparr>actuators_gas = 0.2\<rparr>\<rparr> cp_example cp_example CS_example)))
     (create_event ''speedTooLow'' [IMMEDIATE_DISABLE]) = 1
   \<and> count_list
     (events (snd (update CV_example yaw_rate_example (init CP_example)
        \<lparr>actuators = \<lparr>actuators_gas = 0.2\<rparr>\<rparr> cp_example cp_example CS_example)))
     (create_event ''manualRestart'' [WARNING]) = 1"
  using speed_too_low_rule [of CV_example yaw_rate_example "init CP_example"
      "\<lparr>actuators = \<lparr>actuators_gas = 0.2\<rparr>\<rparr>" cp_example cp_example CS_example]
  by (simp add: Let_def update_vEgo example_defs)

text \<open>
  Claim C4, as amended. The event \<^verbatim>\<open>invalidGiraffeToyota\<close> with \<^verbatim>\<open>PERMANENT\<close> is
  emitted in a cycle, once, iff the camera parser's count of invalid samples is at least
  100 and the camera is simulated (\<^verbatim>\<open>CP.enableCamera\<close>, the flag \<^verbatim>\<open>get_params\<close>
  logs as ``ECU Camera Simulated'').
\<close>

theorem camera_link_lost_rule:
  "(let ret = snd (update CV yaw_rate self c cp cp_cam CS);
        lost = create_event ''invalidGiraffeToyota'' [PERMANENT]
    in count_list (events ret) lost =
         (if can_invalid_cnt cp_cam \<ge> 100 \<and> enableCamera (CP self) then 1 else 0))"
  by (simp add: Let_def update_events create_event_def)

text \<open>With the camera simulated the event is emitted at a count of 100 and not at 99.\<close>

theorem camera_link_lost_rule_witness:
  "count_list
     (events (snd (update CV_example yaw_rate_example (init CP_example) c_example cp_example
        \<lparr>can_valid = False, can_invalid_cnt = 100\<rparr> CS_example)))
     (create_event ''invalidGiraffeToyota'' [PERMANENT]) = 1
   \<and> count_list
     (events (snd (update CV_example yaw_rate_example (init CP_example) c_example cp_example
        \<lparr>can_valid = False, can_invalid_cnt = 99\<rparr> CS_example)))
     (create_event ''invalidGiraffeToyota'' [PERMANENT]) = 0"
  using
    camera_link_lost_rule [of CV_example yaw_rate_example "init CP_example" c_example
      cp_example "\<lparr>can_valid = False, can_invalid_cnt = 100\<rparr>" CS_example]
    camera_link_lost_rule [of CV_example yaw_rate_example "init CP_example" c_example
      cp_example "\<lparr>can_valid = False, can_invalid_cnt = 99\<rparr>" CS_example]
  by (simp add: Let_def example_defs)

text \<open>
  Claim C4 as stated fails: the claim has the event emitted when the count is at least 100
  and the camera is expected to be real. With a count of 100 and a camera that is not
  simulated (\<^verbatim>\<open>CP.enableCamera\<close> false, a real camera answering on the bus), no such
  event is emitted.
\<close>

theorem camera_real_no_event:
  "can_invalid_cnt \<lparr>can_valid = False, can_invalid_cnt = 100\<rparr> \<ge> 100
   \<and> \<not> enableCamera (CP (init (CP_example\<lparr>enableCamera := False\<rparr>)))
   \<and> create_event ''invalidGiraffeToyota'' [PERMANENT] \<notin>
       set (events (snd (update CV_example yaw_rate_example
         (init (CP_example\<lparr>enableCamera := False\<rparr>)) c_example cp_example
         \<lparr>can_valid = False, can_invalid_cnt = 100\<rparr> CS_example)))"
  by (simp add: update_events create_event_def example_defs)

text \<open>
  Claim C5. In every cycle the event \<^verbatim>\<open>pedalPressed\<close> with \<^verbatim>\<open>NO_ENTRY\<close> and
  \<^verbatim>\<open>USER_DISABLE\<close> is emitted iff the gas is pressed and was not in the cycle before,
  or the brake is pressed and was not in the cycle before, or the brake is pressed while
  the speed exceeds 0.001; it is emitted at most once. The cycle before is given by the
  flags the interface remembers, and in a run by the message of the cycle before.
\<close>

theorem driver_override_rule:
  "(let ret = snd (update CV yaw_rate self c cp cp_cam CS);
        override = create_event ''pedalPressed'' [NO_ENTRY, USER_DISABLE]
    in count_list (events ret) override =
         (if (gasPressed ret \<and> \<not> gas_pressed_prev self)
             \<or> (brakePressed ret \<and> \<not> brake_pressed_prev self)
             \<or> (brakePressed ret \<and> vEgo ret > 0.001)
          then 1 else 0))
   \<and> (Suc i < length xs \<longrightarrow>
        (let before = run CV yaw_rate self xs ! i;
             ret = run CV yaw_rate self xs ! Suc i;
             override = create_event ''pedalPressed'' [NO_ENTRY, USER_DISABLE]
         in count_list (events ret) override =
              (if (gasPressed ret \<and> \<not> gasPressed before)
                  \<or> (brakePressed ret \<and> \<not> brakePressed before)
                  \<or> (brakePressed ret \<and> vEgo ret > 0.001)
               then 1 else 0)))"
proof (intro conjI impI)
  show "(let ret = snd (update CV yaw_rate self c cp cp_cam CS);
        override = create_event ''pedalPressed'' [NO_ENTRY, USER_DISABLE]
    in count_list (events ret) override =
         (if (gasPressed ret \<and> \<not> gas_pressed_prev self)
             \<or> (brakePressed ret \<and> \<not> brake_pressed_prev self)
             \<or> (brakePressed ret \<and> vEgo ret > 0.001)
          then 1 else 0))"
    unfolding Let_def by (rule driver_override_count)
next
  assume "Suc i < length xs"
  from run_Suc_nth [OF this, of CV yaw_rate self] obtain s where
    s: "run CV yaw_rate self xs ! Suc i =
           snd (update CV yaw_rate s (control (xs ! Suc i)) (parser (xs ! Suc i))
             (cam_parser (xs ! Suc i)) (car_state (xs ! Suc i)))"
    and g: "gas_pressed_prev s = gasPressed (run CV yaw_rate self xs ! i)"
    and b: "brake_pressed_prev s = brakePressed (run CV yaw_rate self xs ! i)"
    by blast
  show "(let before = run CV yaw_rate self xs ! i;
             ret = run CV yaw_rate self xs ! Suc i;
             override = create_event ''pedalPressed'' [NO_ENTRY, USER_DISABLE]
         in count_list (events ret) override =
              (if (gasPressed ret \<and> \<not> gasPressed before)
                  \<or> (brakePressed ret \<and> \<not> brakePressed before)
                  \<or> (brakePressed ret \<and> vEgo ret > 0.001)
               then 1 else 0))"
    unfolding Let_def s g [symmetric] b [symmetric] by (rule driver_override_count)
qed

text \<open>
  The brake pressed in a first cycle; and the gas pressed from the second of three cycles:
  the event in the second cycle, none in the third.
\<close>

theorem driver_override_rule_witness:
  "count_list
     (events (snd (update CV_example yaw_rate_example (init CP_example) c_example cp_example
        cp_example (CS_example\<lparr>brake_pressed := 1\<rparr>))))
     (create_event ''pedalPressed'' [NO_ENTRY, USER_DISABLE]) = 1
   \<and> count_list
     (events (run CV_example yaw_rate_example (init CP_example)
        [cycle_example,
         cycle_example\<lparr>car_state := CS_example\<lparr>pedal_gas := 0.5\<rparr>\<rparr>,
         cycle_example\<lparr>car_state := CS_example\<lparr>pedal_gas := 0.5\<rparr>\<rparr>] ! 1))
     (create_event ''pedalPressed'' [NO_ENTRY, USER_DISABLE]) = 1
   \<and> count_list
     (events (run CV_example yaw_rate_example (init CP_example)
        [cycle_example,
         cycle_example\<lparr>car_state := CS_example\<lparr>pedal_gas := 0.5\<rparr>\<rparr>,
         cycle_example\<lparr>car_state := CS_example\<lparr>pedal_gas := 0.5\<rparr>\<rparr>] ! 2))
     (create_event ''pedalPressed'' [NO_ENTRY, USER_DISABLE]) = 0"
  using
    driver_override_rule [of CV_example yaw_rate_example "init CP_example" c_example cp_example
      cp_example "CS_example\<lparr>brake_pressed := 1\<rparr>" 0
      "[cycle_example,
         cycle_example\<lparr>car_state := CS_example\<lparr>pedal_gas := 0.5\<rparr>\<rparr>,
         cycle_example\<lparr>car_state := CS_example\<lparr>pedal_gas := 0.5\<rparr>\<rparr>]"]
    driver_override_rule [of CV_example yaw_rate_example "init CP_example" c_example cp_example
      cp_example "CS_example\<lparr>brake_pressed := 1\<rparr>" 1
      "[cycle_example,
         cycle_example\<lparr>car_state := CS_example\<lparr>pedal_gas := 0.5\<rparr>\<rparr>,
         cycle_example\<lparr>car_state := CS_example\<lparr>pedal_gas := 0.5\<rparr>\<rparr>]"]
  by (simp add: Let_def case_prod_beta update_gasPressed update_brakePressed update_vEgo
      update_self example_defs)

text \<open>
  Claim C6. In a cycle in which the cruise state is enabled and was not in the cycle
  before, \<^verbatim>\<open>pcmEnable\<close> with \<^verbatim>\<open>ENABLE\<close> is emitted exactly once and
  \<^verbatim>\<open>pcmDisable\<close> with \<^verbatim>\<open>USER_DISABLE\<close> not at all; the two events never occur in
  the same cycle; and in a run of any number of cycles in all of which the cruise state is
  not enabled, every cycle emits \<^verbatim>\<open>pcmDisable\<close> exactly once, as many events as
  cycles in all.
\<close>

theorem engage_disengage_rule:
  "(let ret = snd (update CV yaw_rate self c cp cp_cam CS);
        engage = create_event ''pcmEnable'' [ENABLE];
        disengage = create_event ''pcmDisable'' [USER_DISABLE]
    in (enabled (cruiseState ret) \<and> \<not> cruise_enabled_prev self \<longrightarrow>
          count_list (events ret) engage = 1 \<and> count_list (events ret) disengage = 0)
       \<and> \<not> (engage \<in> set (events ret) \<and> disengage \<in> set (events ret)))
   \<and> (Suc i < length xs \<longrightarrow>
        (let before = run CV yaw_rate self xs ! i;
             ret = run CV yaw_rate self xs ! Suc i;
             engage = create_event ''pcmEnable'' [ENABLE];
             disengage = create_event ''pcmDisable'' [USER_DISABLE]
         in \<not> enabled (cruiseState before) \<and> enabled (cruiseState ret) \<longrightarrow>
              count_list (events ret) engage = 1 \<and> count_list (events ret) disengage = 0))
   \<and> ((\<forall>r \<in> set (run CV yaw_rate self xs). \<not> enabled (cruiseState r)) \<longrightarrow>
        (\<forall>r \<in> set (run CV yaw_rate self xs).
           count_list (events r) (create_event ''pcmDisable'' [USER_DISABLE]) = 1)
        \<and> sum_list (map (\<lambda>r. count_list (events r) (create_event ''pcmDisable'' [USER_DISABLE]))
             (run CV yaw_rate self xs)) = length xs)"
proof (intro conjI impI)
  have "count_list (events (snd (update CV yaw_rate self c cp cp_cam CS)))
          (create_event ''pcmEnable'' [ENABLE]) = 0
      \<or> count_list (events (snd (update CV yaw_rate self c cp cp_cam CS)))
          (create_event ''pcmDisable'' [USER_DISABLE]) = 0"
    by (simp add: engage_count disengage_count)
  then have "\<not> (create_event ''pcmEnable'' [ENABLE]
                 \<in> set (events (snd (update CV yaw_rate self c cp cp_cam CS)))
             \<and> create_event ''pcmDisable'' [USER_DISABLE]
                 \<in> set (events (snd (update CV yaw_rate self c cp cp_cam CS))))"
    by (auto simp add: count_list_0_iff)
  then show "(let ret = snd (update CV yaw_rate self c cp cp_cam CS);
        engage = create_event ''pcmEnable'' [ENABLE];
        disengage = create_event ''pcmDisable'' [USER_DISABLE]
    in (enabled (cruiseState ret) \<and> \<not> cruise_enabled_prev self \<longrightarrow>
          count_list (events ret) engage = 1 \<and> count_list (events ret) disengage = 0)
       \<and> \<not> (engage \<in> set (events ret) \<and> disengage \<in> set (events ret)))"
    unfolding Let_def by (simp add: engage_count disengage_count)
next
  assume "Suc i < length xs"
  from run_Suc_nth [OF this, of CV yaw_rate self] obtain s where
    s: "run CV yaw_rate self xs ! Suc i =
           snd (update CV yaw_rate s (control (xs ! Suc i)) (parser (xs ! Suc i))
             (cam_parser (xs ! Suc i)) (car_state (xs ! Suc i)))"
    and e: "cruise_enabled_prev s = enabled (cruiseState (run CV yaw_rate self xs ! i))"
    by blast
  show "(let before = run CV yaw_rate self xs ! i;
             ret = run CV yaw_rate self xs ! Suc i;
             engage = create_event ''pcmEnable'' [ENABLE];
             disengage = create_event ''pcmDisable'' [USER_DISABLE]
         in \<not> enabled (cruiseState before) \<and> enabled (cruiseState ret) \<longrightarrow>
              count_list (events ret) engage = 1 \<and> count_list (events ret) disengage = 0)"
    unfolding Let_def s e [symmetric] by (simp add: engage_count disengage_count)
next
  assume off: "\<forall>r \<in> set (run CV yaw_rate self xs). \<not> enabled (cruiseState r)"
  show one: "\<forall>r \<in> set (run CV yaw_rate self xs).
           count_list (events r) (create_event ''pcmDisable'' [USER_DISABLE]) = 1"
  proof
    fix r assume r: "r \<in> set (run CV yaw_rate self xs)"
    then obtain i where i: "i < length xs" and ri: "r = run CV yaw_rate self xs ! i"
      by (auto simp add: in_set_conv_nth length_run)
    from run_nth [OF i, of CV yaw_rate self] obtain s where
      "run CV yaw_rate self xs ! i =
         snd (update CV yaw_rate s (control (xs ! i)) (parser (xs ! i)) (cam_parser (xs ! i))
           (car_state (xs ! i)))"
      by blast
    with off r ri show "count_list (events r) (create_event ''pcmDisable'' [USER_DISABLE]) = 1"
      by (simp add: disengage_count)
  qed
  from sum_list_ones [of "run CV yaw_rate self xs"
      "\<lambda>r. count_list (events r) (create_event ''pcmDisable'' [USER_DISABLE])", OF one]
  show "sum_list (map (\<lambda>r. count_list (events r) (create_event ''pcmDisable'' [USER_DISABLE]))
             (run CV yaw_rate self xs)) = length xs"
    by (simp add: length_run)
qed

text \<open>
  Three cycles with the cruise state off emit three \<^verbatim>\<open>pcmDisable\<close>; a cycle that
  switches it on after a cycle with it off emits one \<^verbatim>\<open>pcmEnable\<close> and no
  \<^verbatim>\<open>pcmDisable\<close>.
\<close>

theorem engage_disengage_rule_witness:
  "sum_list (map (\<lambda>r. count_list (events r) (create_event ''pcmDisable'' [USER_DISABLE]))
      (run CV_example yaw_rate_example (init CP_example)
         [cycle_example, cycle_example, cycle_example])) = 3
   \<and> count_list
     (events (run CV_example yaw_rate_example (init CP_example)
        [cycle_example, cycle_example\<lparr>car_state := CS_example\<lparr>pcm_acc_active := True\<rparr>\<rparr>] ! 1))
     (create_event ''pcmEnable'' [ENABLE]) = 1
   \<and> count_list
     (events (run CV_example yaw_rate_example (init CP_example)
        [cycle_example, cycle_example\<lparr>car_state := CS_example\<lparr>pcm_acc_active := True\<rparr>\<rparr>] ! 1))
     (create_event ''pcmDisable'' [USER_DISABLE]) = 0"
  using
    engage_disengage_rule [of CV_example yaw_rate_example "init CP_example" c_example cp_example
      cp_example CS_example 0 "[cycle_example, cycle_example, cycle_example]"]
    engage_disengage_rule [of CV_example yaw_rate_example "init CP_example" c_example cp_example
      cp_example CS_example 0
      "[cycle_example, cycle_example\<lparr>car_state := CS_example\<lparr>pcm_acc_active := True\<rparr>\<rparr>]"]
  by (simp add: Let_def case_prod_beta update_enabled update_self example_defs)

end
